theory Spec2Isabelle
  imports Complex_Main "HOL-Library.Word" "HOL-Library.Sublist"
begin

section \<open>Python values shared by the modules\<close>

text \<open>
  An exception of class \<open>Exception\<close> carries the text that \<open>str(e)\<close> returns. Every
  call that may raise returns a sum: \<open>Inl e\<close> is "raised \<open>e\<close>", \<open>Inr v\<close> is "returned
  \<open>v\<close>". Python floats are modelled by exact rationals: rounding is left out.
\<close>

datatype exn = Exception (str: string)

type_synonym path = string
type_synonym bytes = "8 word list"

text \<open>The file system: the files that exist, by path, with their contents.\<close>

type_synonym fs = "path \<rightharpoonup> bytes"

text \<open>\<open>os.path.getsize\<close> raises when the file is missing; \<open>os.path.exists\<close> does not.\<close>

definition getsize :: "fs \<Rightarrow> path \<Rightarrow> exn + nat" where
  "getsize files p =
     (case files p of
        None \<Rightarrow> Inl (Exception (''[Errno 2] No such file or directory: '' @ p))
      | Some b \<Rightarrow> Inr (length b))"

definition exists_path :: "fs \<Rightarrow> path \<Rightarrow> bool" where
  "exists_path files p = (files p \<noteq> None)"

text \<open>
  A computation on the file system either raises or returns, and leaves the file system
  as it was at that moment (what was written before a raise stays written).
\<close>

type_synonym 'a io = "fs \<Rightarrow> (exn + 'a) \<times> fs"

definition and_then :: "'a io \<Rightarrow> ('a \<Rightarrow> 'b io) \<Rightarrow> 'b io" where
  "and_then m f = (\<lambda>files. case m files of
                              (Inl e, files') \<Rightarrow> (Inl e, files')
                            | (Inr x, files') \<Rightarrow> f x files')"

definition return_io :: "'a \<Rightarrow> 'a io" where
  "return_io x = (\<lambda>files. (Inr x, files))"

definition reads :: "(fs \<Rightarrow> exn + 'a) \<Rightarrow> 'a io" where
  "reads g = (\<lambda>files. (g files, files))"

definition lift :: "exn + 'a \<Rightarrow> 'a io" where
  "lift r = (\<lambda>files. (r, files))"

text \<open>\<open>try: m except Exception as e: h(e)\<close>\<close>

definition try_except :: "'a io \<Rightarrow> (exn \<Rightarrow> 'a io) \<Rightarrow> 'a io" where
  "try_except m h = (\<lambda>files. case m files of
                                (Inl e, files') \<Rightarrow> h e files'
                              | (Inr x, files') \<Rightarrow> (Inr x, files'))"

text \<open>
  \<open>pathlib\<close>, for path strings that need no normalisation (no trailing or doubled
  \<open>/\<close>, no \<open>.\<close> component): \<open>Path(p).name\<close> is the text after the last \<open>/\<close>,
  \<open>Path(p).stem\<close> is the name without its last suffix (a dot that is neither the
  first nor the last character of the name), \<open>Path(d) / n\<close> joins with a \<open>/\<close>.
\<close>

definition path_name :: "path \<Rightarrow> string" where
  "path_name p = rev (takeWhile (\<lambda>c. c \<noteq> CHR ''/'') (rev p))"

definition path_stem :: "path \<Rightarrow> string" where
  "path_stem p =
     (let name = path_name p;
          k = length (takeWhile (\<lambda>c. c \<noteq> CHR ''.'') (rev name))
      in if 0 < k \<and> Suc k < length name then take (length name - Suc k) name else name)"

definition path_join :: "path \<Rightarrow> string \<Rightarrow> path" where
  "path_join d n = d @ ''/'' @ n"

text \<open>\<open>s.replace(old, new)\<close> for a non-empty \<open>old\<close>: every occurrence, left to right.\<close>

function replace :: "string \<Rightarrow> string \<Rightarrow> string \<Rightarrow> string" where
  "replace old new [] = []"
| "replace old new (c # cs) =
     (if old \<noteq> [] \<and> prefix old (c # cs)
      then new @ replace old new (drop (length old) (c # cs))
      else c # replace old new cs)"
  by pat_completeness auto
termination
  by (relation "measure (\<lambda>(old, new, s). length s)") (auto simp: neq_Nil_conv)

text \<open>\<open>int(x)\<close> on a float truncates towards zero; \<open>f'{n}'\<close> prints an int in decimal.\<close>

definition py_int :: "rat \<Rightarrow> int" where
  "py_int x = (if 0 \<le> x then \<lfloor>x\<rfloor> else \<lceil>x\<rceil>)"

definition digit_char :: "nat \<Rightarrow> char" where
  "digit_char d = char_of (48 + d)"

function digits :: "nat \<Rightarrow> string" where
  "digits n = (if n < 10 then [digit_char n] else digits (n div 10) @ [digit_char (n mod 10)])"
  by pat_completeness auto
termination
  by (relation "measure id") auto

declare digits.simps [simp del]

definition str_int :: "int \<Rightarrow> string" where
  "str_int i = (if i < 0 then CHR ''-'' # digits (nat (- i)) else digits (nat i))"


section \<open>compression\_engine.py: the importance detector\<close>

text \<open>
  A region is the dict \<open>{"type", "bbox", "importance"}\<close>, with the key \<open>"frame"\<close>
  when it comes from a video (\<open>rtype\<close> and \<open>rframe\<close> here). A bounding box is \<open>(x, y, w, h)\<close>.
\<close>

type_synonym bbox = "int \<times> int \<times> int \<times> int"

record region =
  rtype :: string
  bbox :: bbox
  rframe :: "nat option"
  importance :: rat

text \<open>\<open>cv2.VideoCapture\<close>: whether the file opened, and the frames still to be read.\<close>

record 'img capture =
  isOpened :: bool
  frames :: "'img list"

text \<open>\<open>cap.read()\<close> gives \<open>(ret, frame)\<close>; \<open>ret\<close> is false when no frame is left.\<close>

definition cap_read :: "'img capture \<Rightarrow> 'img option \<times> 'img capture" where
  "cap_read cap = (case frames cap of
                     [] \<Rightarrow> (None, cap)
                   | f # fs \<Rightarrow> (Some f, cap\<lparr>frames := fs\<rparr>))"

text \<open>The arguments of one \<open>ffmpeg.input(..).output(..).overwrite_output().run()\<close>.\<close>

record ffmpeg_job =
  ff_input :: path
  ff_output :: path
  vcodec :: "string option"
  crf :: "rat option"
  preset :: "string option"
  acodec :: string
  audio_bitrate :: string

text \<open>
  What the engine calls outside this repository (PIL, OpenCV, torch with CompressAI and
  Encodec, librosa, ffmpeg, the directory operations of the operating system) is a
  parameter. \<open>'img\<close> is a decoded picture or frame, \<open>'cnt\<close> a contour.
  \<^item> \<open>Image_open\<close> is \<open>Image.open(p).convert('RGB')\<close>, \<open>Image_save\<close> is
    \<open>img.save(p, quality=q, optimize=True)\<close>;
  \<^item> \<open>RGB2BGR\<close> is \<open>cv2.cvtColor(np.array(img), cv2.COLOR_RGB2BGR)\<close>, \<open>BGR2GRAY\<close>
    is \<open>cv2.cvtColor(img, cv2.COLOR_BGR2GRAY)\<close>;
  \<^item> \<open>detectMultiScale\<close> is the frontal-face Haar cascade run with \<open>(1.1, 4)\<close>;
  \<^item> \<open>findContours\<close> is \<open>cv2.findContours(cv2.Canny(gray, 50, 150), ..)\<close>;
  \<^item> \<open>image_model\<close> is \<open>self.image_model\<close>, when loaded the tensor round trip of
    \<open>_compress_with_compressai\<close>; \<open>audio_model\<close> is \<open>self.audio_model\<close>, when
    loaded the \<open>librosa.load\<close>, encode, decode and \<open>tobytes\<close> of
    \<open>_compress_with_encodec\<close>.
\<close>

record ('img, 'cnt) libs =
  Image_open :: "fs \<Rightarrow> path \<Rightarrow> exn + 'img"
  Image_save :: "'img \<Rightarrow> path \<Rightarrow> int \<Rightarrow> unit io"
  RGB2BGR :: "'img \<Rightarrow> 'img"
  BGR2GRAY :: "'img \<Rightarrow> 'img"
  detectMultiScale :: "'img \<Rightarrow> exn + bbox list"
  findContours :: "'img \<Rightarrow> 'cnt list"
  boundingRect :: "'cnt \<Rightarrow> bbox"
  VideoCapture :: "fs \<Rightarrow> path \<Rightarrow> 'img capture"
  image_model :: "('img \<Rightarrow> exn + 'img) option"
  COMPRESSAI_AVAILABLE :: bool
  audio_model :: "(fs \<Rightarrow> path \<Rightarrow> exn + bytes) option"
  ENCODEC_AVAILABLE :: bool
  ffmpeg_run :: "ffmpeg_job \<Rightarrow> unit io"
  mkdir :: "path \<Rightarrow> unit io"

definition face_region :: "bbox \<Rightarrow> region" where
  "face_region b = \<lparr>rtype = ''face'', bbox = b, rframe = None, importance = 1\<rparr>"

definition text_region :: "bbox \<Rightarrow> region" where
  "text_region b = \<lparr>rtype = ''text_candidate'', bbox = b, rframe = None, importance = 7 / 10\<rparr>"

text \<open>The second loop of \<open>_detect_important_regions\<close>: one contour at a time.\<close>

fun text_candidates :: "('img, 'cnt) libs \<Rightarrow> 'cnt list \<Rightarrow> region list" where
  "text_candidates L [] = []"
| "text_candidates L (contour # contours) =
     (case boundingRect L contour of (x, y, w, h) \<Rightarrow>
        (if w > 50 \<and> h > 20
         then text_region (x, y, w, h) # text_candidates L contours
         else text_candidates L contours))"

definition detect_important_regions :: "('img, 'cnt) libs \<Rightarrow> 'img \<Rightarrow> exn + region list" where
  "detect_important_regions L img =
     (let cv_image = RGB2BGR L img in
      case detectMultiScale L cv_image of
        Inl e \<Rightarrow> Inl e
      | Inr faces \<Rightarrow>
          (let important_regions = map face_region faces;
               gray = BGR2GRAY L cv_image;
               contours = findContours L gray
           in Inr (important_regions @ text_candidates L contours)))"

text \<open>
  \<open>_analyze_video_regions\<close>: the \<open>while cap.isOpened() and frame_count < 10\<close> loop,
  with \<open>break\<close> when \<open>cap.read()\<close> has no frame.
\<close>

definition face_region_at :: "nat \<Rightarrow> bbox \<Rightarrow> region" where
  "face_region_at frame_count b =
     \<lparr>rtype = ''face'', bbox = b, rframe = Some frame_count, importance = 1\<rparr>"

function analyze_loop ::
  "('img, 'cnt) libs \<Rightarrow> 'img capture \<Rightarrow> nat \<Rightarrow> region list \<Rightarrow> exn + region list" where
  "analyze_loop L cap frame_count important_regions =
     (if isOpened cap \<and> frame_count < 10 then
        (case cap_read cap of
           (None, cap') \<Rightarrow> Inr important_regions
         | (Some frame, cap') \<Rightarrow>
             (case detectMultiScale L (BGR2GRAY L frame) of
                Inl e \<Rightarrow> Inl e
              | Inr faces \<Rightarrow>
                  analyze_loop L cap' (frame_count + 1)
                    (important_regions @ map (face_region_at frame_count) faces)))
      else Inr important_regions)"
  by pat_completeness auto
termination
  by (relation "measure (\<lambda>(L, cap, frame_count, regions). 10 - frame_count)") auto

declare analyze_loop.simps [simp del]

definition analyze_video_regions :: "('img, 'cnt) libs \<Rightarrow> fs \<Rightarrow> path \<Rightarrow> exn + region list" where
  "analyze_video_regions L files video_path =
     analyze_loop L (VideoCapture L files video_path) 0 []"


section \<open>compression\_engine.py: the backends\<close>

text \<open>
  The result dict of a backend: \<open>{"success": True, "original_size", "compressed_size",
  "compression_ratio", "ai_analysis"}\<close> or \<open>{"success": False, "error"}\<close>. The
  \<open>ai_analysis\<close> dict is \<open>{"adaptive_mode", "important_regions"}\<close> for images and
  videos and \<open>{"neural_compression", "target_bitrate"}\<close> for audio.
\<close>

datatype analysis = RegionAnalysis bool nat | AudioAnalysis bool rat

datatype result = Success nat nat rat analysis | Failure string

fun success :: "result \<Rightarrow> bool" where
  "success (Success original compressed ratio an) = True"
| "success (Failure reason) = False"

text \<open>
  \<open>(1 - compressed_size / original_size) * 100\<close>: true division raises
  \<open>ZeroDivisionError\<close> on a zero divisor.
\<close>

definition ratio_expr :: "nat \<Rightarrow> nat \<Rightarrow> exn + rat" where
  "ratio_expr compressed_size original_size =
     (if original_size = 0 then Inl (Exception ''division by zero'')
      else Inr ((1 - of_nat compressed_size / of_nat original_size) * 100))"

text \<open>\<open>with open(p, 'wb') as f: f.write(b)\<close>: the file at \<open>p\<close> now holds \<open>b\<close>.\<close>

definition write_file :: "path \<Rightarrow> bytes \<Rightarrow> unit io" where
  "write_file p b = (\<lambda>files. (Inr (), files(p \<mapsto> b)))"

definition compress_with_compressai ::
  "('img, 'cnt) libs \<Rightarrow> 'img \<Rightarrow> int \<Rightarrow> region list option \<Rightarrow> exn + 'img" where
  "compress_with_compressai L img quality important_regions =
     (case image_model L of
        None \<Rightarrow> Inl (Exception ''NoneType object has no attribute compress'')
      | Some model \<Rightarrow> model img)"

definition compress_adaptive_jpeg :: "'img \<Rightarrow> int \<Rightarrow> region list \<Rightarrow> 'img" where
  "compress_adaptive_jpeg img quality important_regions = img"

definition compress_standard_jpeg :: "'img \<Rightarrow> int \<Rightarrow> 'img" where
  "compress_standard_jpeg img quality = img"

definition compress_with_encodec ::
  "('img, 'cnt) libs \<Rightarrow> fs \<Rightarrow> path \<Rightarrow> rat \<Rightarrow> exn + bytes" where
  "compress_with_encodec L files input_path bitrate =
     (case audio_model L of
        None \<Rightarrow> Inl (Exception ''NoneType object has no attribute encode'')
      | Some model \<Rightarrow> model files input_path)"

definition compress_with_ffmpeg :: "('img, 'cnt) libs \<Rightarrow> path \<Rightarrow> rat \<Rightarrow> path io" where
  "compress_with_ffmpeg L input_path bitrate =
     (let output_path = replace ''.wav'' ''_compressed.mp3'' input_path in
      and_then
        (ffmpeg_run L
           \<lparr>ff_input = input_path, ff_output = output_path, vcodec = None, crf = None,
            preset = None, acodec = ''mp3'',
            audio_bitrate = str_int (py_int (bitrate * 1000))\<rparr>)
        (\<lambda>_. return_io output_path))"

definition compress_video_adaptive ::
  "('img, 'cnt) libs \<Rightarrow> path \<Rightarrow> path \<Rightarrow> int \<Rightarrow> region list \<Rightarrow> path io" where
  "compress_video_adaptive L input_path output_path quality important_regions =
     (let crf_value = 51 - (of_int quality * (1 / 2)) in
      and_then
        (ffmpeg_run L
           \<lparr>ff_input = input_path, ff_output = output_path, vcodec = Some ''libx264'',
            crf = Some crf_value, preset = Some ''medium'', acodec = ''aac'',
            audio_bitrate = ''128k''\<rparr>)
        (\<lambda>_. return_io output_path))"

definition compress_video_standard ::
  "('img, 'cnt) libs \<Rightarrow> path \<Rightarrow> path \<Rightarrow> int \<Rightarrow> path io" where
  "compress_video_standard L input_path output_path quality =
     (let crf_value = 51 - (of_int quality * (1 / 2)) in
      and_then
        (ffmpeg_run L
           \<lparr>ff_input = input_path, ff_output = output_path, vcodec = Some ''libx264'',
            crf = Some crf_value, preset = Some ''medium'', acodec = ''aac'',
            audio_bitrate = ''128k''\<rparr>)
        (\<lambda>_. return_io output_path))"

text \<open>
  The three public operations. Each is one \<open>try\<close> block (the \<open>_try\<close> definition)
  under \<open>except Exception as e: return {"success": False, "error": str(e)}\<close>.
  In the non-adaptive branches \<open>important_regions\<close> is never bound and never read;
  the model carries \<open>[]\<close> there.
\<close>

definition compress_image_try ::
  "('img, 'cnt) libs \<Rightarrow> path \<Rightarrow> path \<Rightarrow> int \<Rightarrow> bool \<Rightarrow> result io" where
  "compress_image_try L input_path output_path quality adaptive_mode =
     and_then (reads (\<lambda>files. Image_open L files input_path)) (\<lambda>img.
     and_then (reads (\<lambda>files. getsize files input_path)) (\<lambda>original_size.
     and_then
       (if adaptive_mode then
          and_then (lift (detect_important_regions L img)) (\<lambda>important_regions.
          and_then
            (if image_model L \<noteq> None \<and> COMPRESSAI_AVAILABLE L
             then lift (compress_with_compressai L img quality (Some important_regions))
             else return_io (compress_adaptive_jpeg img quality important_regions))
            (\<lambda>compressed_image. return_io (compressed_image, important_regions)))
        else
          and_then
            (if image_model L \<noteq> None \<and> COMPRESSAI_AVAILABLE L
             then lift (compress_with_compressai L img quality None)
             else return_io (compress_standard_jpeg img quality))
            (\<lambda>compressed_image. return_io (compressed_image, [])))
       (\<lambda>(compressed_image, important_regions).
     and_then (Image_save L compressed_image output_path quality) (\<lambda>_.
     and_then (reads (\<lambda>files. getsize files output_path)) (\<lambda>compressed_size.
     and_then (lift (ratio_expr compressed_size original_size)) (\<lambda>ratio.
     return_io
       (Success original_size compressed_size ratio
          (RegionAnalysis adaptive_mode
             (if adaptive_mode then length important_regions else 0)))))))))"

definition compress_image ::
  "('img, 'cnt) libs \<Rightarrow> path \<Rightarrow> path \<Rightarrow> int \<Rightarrow> bool \<Rightarrow> result io" where
  "compress_image L input_path output_path quality adaptive_mode =
     try_except (compress_image_try L input_path output_path quality adaptive_mode)
       (\<lambda>e. return_io (Failure (str e)))"

text \<open>\<open>compressed_audio\<close> is a \<open>str\<close> (the path ffmpeg wrote) or \<open>bytes\<close>.\<close>

datatype compressed_audio = Str path | Bytes bytes

definition compress_audio_try ::
  "('img, 'cnt) libs \<Rightarrow> path \<Rightarrow> path \<Rightarrow> rat \<Rightarrow> result io" where
  "compress_audio_try L input_path output_path bitrate =
     and_then (reads (\<lambda>files. getsize files input_path)) (\<lambda>original_size.
     and_then
       (if audio_model L \<noteq> None \<and> ENCODEC_AVAILABLE L
        then and_then (reads (\<lambda>files. compress_with_encodec L files input_path bitrate))
               (\<lambda>b. return_io (Bytes b))
        else and_then (compress_with_ffmpeg L input_path bitrate)
               (\<lambda>p. return_io (Str p)))
       (\<lambda>compressed_audio.
     and_then
       (case compressed_audio of
          Str p \<Rightarrow> reads (\<lambda>files. getsize files p)
        | Bytes b \<Rightarrow>
            and_then (write_file output_path b)
              (\<lambda>_. reads (\<lambda>files. getsize files output_path)))
       (\<lambda>compressed_size.
     and_then (lift (ratio_expr compressed_size original_size)) (\<lambda>ratio.
     return_io
       (Success original_size compressed_size ratio
          (AudioAnalysis (audio_model L \<noteq> None) bitrate))))))"

definition compress_audio ::
  "('img, 'cnt) libs \<Rightarrow> path \<Rightarrow> path \<Rightarrow> rat \<Rightarrow> result io" where
  "compress_audio L input_path output_path bitrate =
     try_except (compress_audio_try L input_path output_path bitrate)
       (\<lambda>e. return_io (Failure (str e)))"

definition compress_video_try ::
  "('img, 'cnt) libs \<Rightarrow> path \<Rightarrow> path \<Rightarrow> int \<Rightarrow> bool \<Rightarrow> result io" where
  "compress_video_try L input_path output_path quality adaptive_mode =
     and_then (reads (\<lambda>files. getsize files input_path)) (\<lambda>original_size.
     and_then
       (if adaptive_mode then
          and_then (reads (\<lambda>files. analyze_video_regions L files input_path))
            (\<lambda>important_regions.
          and_then
            (compress_video_adaptive L input_path output_path quality important_regions)
            (\<lambda>compressed_video. return_io important_regions))
        else
          and_then (compress_video_standard L input_path output_path quality)
            (\<lambda>compressed_video. return_io []))
       (\<lambda>important_regions.
     and_then (reads (\<lambda>files. getsize files output_path)) (\<lambda>compressed_size.
     and_then (lift (ratio_expr compressed_size original_size)) (\<lambda>ratio.
     return_io
       (Success original_size compressed_size ratio
          (RegionAnalysis adaptive_mode
             (if adaptive_mode then length important_regions else 0)))))))"

definition compress_video ::
  "('img, 'cnt) libs \<Rightarrow> path \<Rightarrow> path \<Rightarrow> int \<Rightarrow> bool \<Rightarrow> result io" where
  "compress_video L input_path output_path quality adaptive_mode =
     try_except (compress_video_try L input_path output_path quality adaptive_mode)
       (\<lambda>e. return_io (Failure (str e)))"


section \<open>models.py\<close>

datatype TaskStatus = PENDING | PROCESSING | COMPLETED | FAILED

text \<open>
  \<open>CompressionTask\<close>; the field \<open>id\<close> is \<open>ident\<close> here, a \<open>datetime\<close> is a
  number. \<open>CompressionTask_new\<close> is the constructor called with the required fields
  only: every other field takes its declared default (\<open>created_at\<close> the time at
  which the class was defined, passed in).
\<close>

record CompressionTask =
  ident :: string
  file_type :: string
  original_filename :: string
  original_size :: nat
  file_path :: string
  compressed_file_path :: "string option"
  compressed_size :: "nat option"
  compression_ratio :: "rat option"
  status :: TaskStatus
  progress :: int
  error_message :: "string option"
  created_at :: nat
  completed_at :: "nat option"
  quality :: "int option"
  adaptive_mode :: "bool option"
  bitrate :: "rat option"
  ai_analysis :: "analysis option"

definition CompressionTask_new ::
  "nat \<Rightarrow> string \<Rightarrow> string \<Rightarrow> string \<Rightarrow> nat \<Rightarrow> string \<Rightarrow> CompressionTask" where
  "CompressionTask_new class_time i ftype fname osize fpath =
     \<lparr>ident = i, file_type = ftype, original_filename = fname, original_size = osize,
      file_path = fpath, compressed_file_path = None, compressed_size = None,
      compression_ratio = None, status = PENDING, progress = 0, error_message = None,
      created_at = class_time, completed_at = None, quality = None, adaptive_mode = None,
      bitrate = None, ai_analysis = None\<rparr>"


section \<open>tasks.py: the worker tasks\<close>

text \<open>
  The job table is the module's dict \<open>tasks\<close>. A task returns the dict
  \<open>{"success": True, "task_id", "compressed_size", "compression_ratio"}\<close> or
  \<open>{"success": False, "task_id", "error"}\<close>.
\<close>

type_synonym task_table = "string \<rightharpoonup> CompressionTask"

datatype task_return = TaskSuccess string nat rat | TaskFailure string string

text \<open>The four guarded blocks \<open>if task_id in tasks: tasks[task_id].f = v; ..\<close>.\<close>

definition set_processing :: "string \<Rightarrow> task_table \<Rightarrow> task_table" where
  "set_processing task_id tbl =
     (case tbl task_id of
        None \<Rightarrow> tbl
      | Some t \<Rightarrow> tbl(task_id \<mapsto> t\<lparr>status := PROCESSING, progress := 10\<rparr>))"

definition set_progress_30 :: "string \<Rightarrow> task_table \<Rightarrow> task_table" where
  "set_progress_30 task_id tbl =
     (case tbl task_id of
        None \<Rightarrow> tbl
      | Some t \<Rightarrow> tbl(task_id \<mapsto> t\<lparr>progress := 30\<rparr>))"

definition set_completed ::
  "string \<Rightarrow> path \<Rightarrow> nat \<Rightarrow> rat \<Rightarrow> analysis \<Rightarrow> task_table \<Rightarrow> task_table" where
  "set_completed task_id output_path csize ratio an tbl =
     (case tbl task_id of
        None \<Rightarrow> tbl
      | Some t \<Rightarrow>
          tbl(task_id \<mapsto>
            t\<lparr>status := COMPLETED, progress := 100,
              compressed_file_path := Some output_path, compressed_size := Some csize,
              compression_ratio := Some ratio, ai_analysis := Some an\<rparr>))"

definition set_failed :: "string \<Rightarrow> string \<Rightarrow> task_table \<Rightarrow> task_table" where
  "set_failed task_id reason tbl =
     (case tbl task_id of
        None \<Rightarrow> tbl
      | Some t \<Rightarrow> tbl(task_id \<mapsto> t\<lparr>status := FAILED, error_message := Some reason\<rparr>))"

text \<open>
  The state of a task is the job table and the file system. \<open>on_result\<close> is the
  \<open>if result["success"]: .. else: ..\<close> that ends each \<open>try\<close> block, \<open>on_exception\<close>
  the handler \<open>except Exception as e\<close> of each task.
\<close>

type_synonym task_outcome = "(exn + task_return) \<times> task_table \<times> fs"

definition on_result ::
  "string \<Rightarrow> path \<Rightarrow> result \<Rightarrow> task_table \<Rightarrow> fs \<Rightarrow> task_outcome" where
  "on_result task_id output_path res tbl files =
     (case res of
        Success osize csize ratio an \<Rightarrow>
          (Inr (TaskSuccess task_id csize ratio),
           set_completed task_id output_path csize ratio an tbl, files)
      | Failure reason \<Rightarrow>
          (Inr (TaskFailure task_id reason), set_failed task_id reason tbl, files))"

definition on_exception :: "string \<Rightarrow> exn \<Rightarrow> task_table \<Rightarrow> fs \<Rightarrow> task_outcome" where
  "on_exception task_id e tbl files =
     (Inr (TaskFailure task_id (str e)), set_failed task_id (str e) tbl, files)"

definition task_compress_image ::
  "('img, 'cnt) libs \<Rightarrow> string \<Rightarrow> path \<Rightarrow> int \<Rightarrow> bool \<Rightarrow> task_table \<times> fs \<Rightarrow> task_outcome" where
  "task_compress_image L task_id fpath qual adaptive st =
     (case st of (tbl, files) \<Rightarrow>
        (let tbl1 = set_processing task_id tbl;
             output_path = path_join ''outputs'' (''compressed_'' @ path_name fpath)
         in case mkdir L ''outputs'' files of
              (Inl e, files1) \<Rightarrow> on_exception task_id e tbl1 files1
            | (Inr _, files1) \<Rightarrow>
                (let tbl2 = set_progress_30 task_id tbl1 in
                 case compress_image L fpath output_path qual adaptive files1 of
                   (Inl e, files2) \<Rightarrow> on_exception task_id e tbl2 files2
                 | (Inr res, files2) \<Rightarrow> on_result task_id output_path res tbl2 files2)))"

definition task_compress_audio ::
  "('img, 'cnt) libs \<Rightarrow> string \<Rightarrow> path \<Rightarrow> rat \<Rightarrow> task_table \<times> fs \<Rightarrow> task_outcome" where
  "task_compress_audio L task_id fpath rate st =
     (case st of (tbl, files) \<Rightarrow>
        (let tbl1 = set_processing task_id tbl;
             output_path = path_join ''outputs'' (''compressed_'' @ path_stem fpath @ ''.mp3'')
         in case mkdir L ''outputs'' files of
              (Inl e, files1) \<Rightarrow> on_exception task_id e tbl1 files1
            | (Inr _, files1) \<Rightarrow>
                (let tbl2 = set_progress_30 task_id tbl1 in
                 case compress_audio L fpath output_path rate files1 of
                   (Inl e, files2) \<Rightarrow> on_exception task_id e tbl2 files2
                 | (Inr res, files2) \<Rightarrow> on_result task_id output_path res tbl2 files2)))"

definition task_compress_video ::
  "('img, 'cnt) libs \<Rightarrow> string \<Rightarrow> path \<Rightarrow> int \<Rightarrow> bool \<Rightarrow> task_table \<times> fs \<Rightarrow> task_outcome" where
  "task_compress_video L task_id fpath qual adaptive st =
     (case st of (tbl, files) \<Rightarrow>
        (let tbl1 = set_processing task_id tbl;
             output_path = path_join ''outputs'' (''compressed_'' @ path_name fpath)
         in case mkdir L ''outputs'' files of
              (Inl e, files1) \<Rightarrow> on_exception task_id e tbl1 files1
            | (Inr _, files1) \<Rightarrow>
                (let tbl2 = set_progress_30 task_id tbl1 in
                 case compress_video L fpath output_path qual adaptive files1 of
                   (Inl e, files2) \<Rightarrow> on_exception task_id e tbl2 files2
                 | (Inr res, files2) \<Rightarrow> on_result task_id output_path res tbl2 files2)))"


text \<open>A queued call \<open>send_task(name, args=[..])\<close>, and the task it names.\<close>

datatype task_message =
    CompressImage string path int bool
  | CompressAudio string path rat
  | CompressVideo string path int bool

fun run_message ::
  "('img, 'cnt) libs \<Rightarrow> task_message \<Rightarrow> task_table \<times> fs \<Rightarrow> task_outcome" where
  "run_message L (CompressImage task_id fpath qual adaptive) st =
     task_compress_image L task_id fpath qual adaptive st"
| "run_message L (CompressAudio task_id fpath rate) st =
     task_compress_audio L task_id fpath rate st"
| "run_message L (CompressVideo task_id fpath qual adaptive) st =
     task_compress_video L task_id fpath qual adaptive st"

fun message_id :: "task_message \<Rightarrow> string" where
  "message_id (CompressImage task_id fpath qual adaptive) = task_id"
| "message_id (CompressAudio task_id fpath rate) = task_id"
| "message_id (CompressVideo task_id fpath qual adaptive) = task_id"


section \<open>main.py: the endpoints\<close>

text \<open>
  The state of the service. \<open>tasks\<close> is the dict \<open>tasks\<close> of main.py, which the
  endpoints read and write; \<open>worker_tasks\<close> is the dict \<open>tasks\<close> of tasks.py, a
  different object, which the worker tasks read and write; \<open>disk\<close> is the file system;
  \<open>broker\<close> holds the messages handed to \<open>celery_app.send_task\<close> that no worker
  has taken yet. An endpoint answers with a value, raises
  \<open>HTTPException(status_code, detail)\<close>, or lets another exception escape.
  \<open>str(uuid.uuid4())\<close> is the argument \<open>task_id\<close>.
\<close>

record world =
  tasks :: task_table
  worker_tasks :: task_table
  disk :: fs
  broker :: "task_message list"

record UploadFile =
  filename :: string
  content_type :: "string option"
  content :: bytes

datatype http_error = HTTPException nat string | Uncaught exn

datatype upload_response = UploadResponse string string string

datatype file_response = FileResponse path string string

definition upload_image ::
  "('img, 'cnt) libs \<Rightarrow> nat \<Rightarrow> string \<Rightarrow> UploadFile \<Rightarrow> int \<Rightarrow> bool \<Rightarrow> world
     \<Rightarrow> (http_error + upload_response) \<times> world" where
  "upload_image L class_time task_id file qual adaptive w =
     (case content_type file of
        None \<Rightarrow> (Inl (Uncaught (Exception ''NoneType object has no attribute startswith'')), w)
      | Some ctype \<Rightarrow>
          if \<not> prefix ''image/'' ctype
          then (Inl (HTTPException 400 ''File must be an image''), w)
          else
            (case mkdir L ''uploads'' (disk w) of
               (Inl e, d1) \<Rightarrow> (Inl (Uncaught e), w\<lparr>disk := d1\<rparr>)
             | (Inr _, d1) \<Rightarrow>
                 (let fpath = path_join ''uploads'' (task_id @ ''_'' @ filename file) in
                  case write_file fpath (content file) d1 of
                    (Inl e, d2) \<Rightarrow> (Inl (Uncaught e), w\<lparr>disk := d2\<rparr>)
                  | (Inr _, d2) \<Rightarrow>
                      (let task =
                             (CompressionTask_new class_time task_id ''image'' (filename file)
                                (length (content file)) fpath)
                             \<lparr>quality := Some qual, adaptive_mode := Some adaptive,
                              status := PROCESSING\<rparr>
                       in (Inr (UploadResponse task_id ''processing''
                                  ''Image compression started''),
                           w\<lparr>disk := d2, tasks := (tasks w)(task_id \<mapsto> task),
                             broker := broker w @
                               [CompressImage task_id fpath qual adaptive]\<rparr>)))))"

definition upload_audio ::
  "('img, 'cnt) libs \<Rightarrow> nat \<Rightarrow> string \<Rightarrow> UploadFile \<Rightarrow> rat \<Rightarrow> world
     \<Rightarrow> (http_error + upload_response) \<times> world" where
  "upload_audio L class_time task_id file rate w =
     (case content_type file of
        None \<Rightarrow> (Inl (Uncaught (Exception ''NoneType object has no attribute startswith'')), w)
      | Some ctype \<Rightarrow>
          if \<not> prefix ''audio/'' ctype
          then (Inl (HTTPException 400 ''File must be an audio file''), w)
          else
            (case mkdir L ''uploads'' (disk w) of
               (Inl e, d1) \<Rightarrow> (Inl (Uncaught e), w\<lparr>disk := d1\<rparr>)
             | (Inr _, d1) \<Rightarrow>
                 (let fpath = path_join ''uploads'' (task_id @ ''_'' @ filename file) in
                  case write_file fpath (content file) d1 of
                    (Inl e, d2) \<Rightarrow> (Inl (Uncaught e), w\<lparr>disk := d2\<rparr>)
                  | (Inr _, d2) \<Rightarrow>
                      (let task =
                             (CompressionTask_new class_time task_id ''audio'' (filename file)
                                (length (content file)) fpath)
                             \<lparr>bitrate := Some rate, status := PROCESSING\<rparr>
                       in (Inr (UploadResponse task_id ''processing''
                                  ''Audio compression started''),
                           w\<lparr>disk := d2, tasks := (tasks w)(task_id \<mapsto> task),
                             broker := broker w @ [CompressAudio task_id fpath rate]\<rparr>)))))"

definition upload_video ::
  "('img, 'cnt) libs \<Rightarrow> nat \<Rightarrow> string \<Rightarrow> UploadFile \<Rightarrow> int \<Rightarrow> bool \<Rightarrow> world
     \<Rightarrow> (http_error + upload_response) \<times> world" where
  "upload_video L class_time task_id file qual adaptive w =
     (case content_type file of
        None \<Rightarrow> (Inl (Uncaught (Exception ''NoneType object has no attribute startswith'')), w)
      | Some ctype \<Rightarrow>
          if \<not> prefix ''video/'' ctype
          then (Inl (HTTPException 400 ''File must be a video file''), w)
          else
            (case mkdir L ''uploads'' (disk w) of
               (Inl e, d1) \<Rightarrow> (Inl (Uncaught e), w\<lparr>disk := d1\<rparr>)
             | (Inr _, d1) \<Rightarrow>
                 (let fpath = path_join ''uploads'' (task_id @ ''_'' @ filename file) in
                  case write_file fpath (content file) d1 of
                    (Inl e, d2) \<Rightarrow> (Inl (Uncaught e), w\<lparr>disk := d2\<rparr>)
                  | (Inr _, d2) \<Rightarrow>
                      (let task =
                             (CompressionTask_new class_time task_id ''video'' (filename file)
                                (length (content file)) fpath)
                             \<lparr>quality := Some qual, adaptive_mode := Some adaptive,
                              status := PROCESSING\<rparr>
                       in (Inr (UploadResponse task_id ''processing''
                                  ''Video compression started''),
                           w\<lparr>disk := d2, tasks := (tasks w)(task_id \<mapsto> task),
                             broker := broker w @
                               [CompressVideo task_id fpath qual adaptive]\<rparr>)))))"

text \<open>
  \<open>download_compressed_file\<close>. \<open>not task.compressed_file_path\<close> holds for \<open>None\<close> and
  for the empty string.
\<close>

definition download_compressed_file ::
  "string \<Rightarrow> world \<Rightarrow> (http_error + file_response) \<times> world" where
  "download_compressed_file task_id w =
     (case tasks w task_id of
        None \<Rightarrow> (Inl (HTTPException 404 ''Task not found''), w)
      | Some task \<Rightarrow>
          if status task \<noteq> COMPLETED
          then (Inl (HTTPException 400 ''Task not completed''), w)
          else
            (case compressed_file_path task of
               None \<Rightarrow> (Inl (HTTPException 404 ''Compressed file not found''), w)
             | Some p \<Rightarrow>
                 if p = [] \<or> \<not> exists_path (disk w) p
                 then (Inl (HTTPException 404 ''Compressed file not found''), w)
                 else (Inr (FileResponse p (''compressed_'' @ original_filename task)
                              ''application/octet-stream''), w)))"


section \<open>The system as a whole\<close>

text \<open>
  The states the service can be in. It starts with both job tables empty and no
  message. An upload runs one of the three endpoints, on the endpoints' table. A worker
  takes any waiting message and runs the task it names on the workers' table, the only
  table tasks.py can reach. Nothing else writes either table: no code of the
  repository puts a job into the workers' table.
\<close>

definition take_message :: "nat \<Rightarrow> task_message list \<Rightarrow> task_message list" where
  "take_message i ms = take i ms @ drop (Suc i) ms"

inductive reachable :: "('img, 'cnt) libs \<Rightarrow> nat \<Rightarrow> world \<Rightarrow> bool"
  for L :: "('img, 'cnt) libs" and class_time :: nat where
  start: "reachable L class_time
            \<lparr>tasks = Map.empty, worker_tasks = Map.empty, disk = d, broker = []\<rparr>"
| image: "reachable L class_time w \<Longrightarrow>
          reachable L class_time (snd (upload_image L class_time task_id upl qual adaptive w))"
| audio: "reachable L class_time w \<Longrightarrow>
          reachable L class_time (snd (upload_audio L class_time task_id upl rate w))"
| video: "reachable L class_time w \<Longrightarrow>
          reachable L class_time (snd (upload_video L class_time task_id upl qual adaptive w))"
| work: "reachable L class_time w \<Longrightarrow> i < length (broker w) \<Longrightarrow>
         run_message L (broker w ! i) (worker_tasks w, disk w) = (r, tbl', d') \<Longrightarrow>
         reachable L class_time
           (w\<lparr>worker_tasks := tbl', disk := d', broker := take_message i (broker w)\<rparr>)"




section \<open>The video detector as the specification words it\<close>

text \<open>
  "Samples at most the first 10 decodable frames; applies the image detector to each
  sampled frame, tagging each region with its frame index; stops early if frames run
  out."
\<close>

fun spec_tag_frames :: "('img, 'cnt) libs \<Rightarrow> nat \<Rightarrow> 'img list \<Rightarrow> exn + region list" where
  "spec_tag_frames L i [] = Inr []"
| "spec_tag_frames L i (f # fs) =
     (case detect_important_regions L f of
        Inl e \<Rightarrow> Inl e
      | Inr rs \<Rightarrow>
          (case spec_tag_frames L (Suc i) fs of
             Inl e \<Rightarrow> Inl e
           | Inr rest \<Rightarrow> Inr (map (\<lambda>r. r\<lparr>rframe := Some i\<rparr>) rs @ rest)))"

definition spec_video_regions :: "('img, 'cnt) libs \<Rightarrow> fs \<Rightarrow> path \<Rightarrow> exn + region list" where
  "spec_video_regions L files video_path =
     (let cap = VideoCapture L files video_path in
      if isOpened cap then spec_tag_frames L 0 (take 10 (frames cap)) else Inr [])"

text \<open>What the code does instead: the faces of each sampled frame, in order.\<close>

fun faces_of_frames :: "('img, 'cnt) libs \<Rightarrow> nat \<Rightarrow> 'img list \<Rightarrow> exn + region list" where
  "faces_of_frames L i [] = Inr []"
| "faces_of_frames L i (f # fs) =
     (case detectMultiScale L (BGR2GRAY L f) of
        Inl e \<Rightarrow> Inl e
      | Inr faces \<Rightarrow>
          (case faces_of_frames L (Suc i) fs of
             Inl e \<Rightarrow> Inl e
           | Inr rest \<Rightarrow> Inr (map (face_region_at i) faces @ rest)))"


section \<open>A concrete environment\<close>

text \<open>
  Stand-ins for the libraries, to run the definitions: a picture is a number (its file
  size when opened from a file), a contour is its own bounding box. Saving a picture
  and running ffmpeg write half as many bytes as the source has; the detector finds
  one 30 by 30 face in every picture, and the contours are one of 100 by 40 and one
  of 10 by 10; a video file has one frame for each of its bytes. No learned model is
  loaded.
\<close>

definition sample_libs :: "(nat, bbox) libs" where
  "sample_libs =
     \<lparr>Image_open = (\<lambda>files p. case files p of
                       None \<Rightarrow> Inl (Exception ''cannot open image'')
                     | Some b \<Rightarrow> Inr (length b)),
      Image_save = (\<lambda>img p q. write_file p (replicate (img div 2) 0)),
      RGB2BGR = (\<lambda>img. img),
      BGR2GRAY = (\<lambda>img. img),
      detectMultiScale = (\<lambda>img. Inr [(0, 0, 30, 30)]),
      findContours = (\<lambda>img. [(5, 5, 100, 40), (1, 1, 10, 10)]),
      boundingRect = (\<lambda>c. c),
      VideoCapture = (\<lambda>files p. case files p of
                         None \<Rightarrow> \<lparr>isOpened = False, frames = []\<rparr>
                       | Some b \<Rightarrow> \<lparr>isOpened = True, frames = map unat b\<rparr>),
      image_model = None,
      COMPRESSAI_AVAILABLE = False,
      audio_model = None,
      ENCODEC_AVAILABLE = False,
      ffmpeg_run = (\<lambda>job files. case files (ff_input job) of
                       None \<Rightarrow> (Inl (Exception ''ffmpeg error''), files)
                     | Some b \<Rightarrow> (Inr (), files(ff_output job \<mapsto> take (length b div 2) b))),
      mkdir = (\<lambda>p. return_io ())\<rparr>"


text \<open>The same, with an ffmpeg whose output is twice as long as its input.\<close>

definition padding_libs :: "(nat, bbox) libs" where
  "padding_libs =
     sample_libs\<lparr>ffmpeg_run := (\<lambda>job files. case files (ff_input job) of
                       None \<Rightarrow> (Inl (Exception ''ffmpeg error''), files)
                     | Some b \<Rightarrow> (Inr (), files(ff_output job \<mapsto> b @ b)))\<rparr>"

text \<open>
  One run, used below: an audio file \<open>a.wav\<close> of 100 bytes is uploaded under the
  id \<open>t1\<close> to the empty service (\<open>uploaded_world\<close>), then a worker takes the
  message and runs the task (\<open>served_world\<close>). \<open>uploaded_job\<close> is the record the
  upload creates; \<open>completed_job\<close> is what the audio task makes of that record when
  the table it is given holds it.
\<close>

definition sample_wav :: UploadFile where
  "sample_wav = \<lparr>filename = ''a.wav'', content_type = Some ''audio/wav'',
                  content = replicate 100 0\<rparr>"

definition empty_world :: world where
  "empty_world =
     \<lparr>tasks = Map.empty, worker_tasks = Map.empty, disk = Map.empty, broker = []\<rparr>"

definition uploaded_world :: world where
  "uploaded_world = snd (upload_audio sample_libs 0 ''t1'' sample_wav 6 empty_world)"


definition uploaded_job :: CompressionTask where
  "uploaded_job =
     \<lparr>ident = ''t1'', file_type = ''audio'', original_filename = ''a.wav'',
      original_size = 100, file_path = ''uploads/t1_a.wav'', compressed_file_path = None,
      compressed_size = None, compression_ratio = None, status = PROCESSING, progress = 0,
      error_message = None, created_at = 0, completed_at = None, quality = None,
      adaptive_mode = None, bitrate = Some 6, ai_analysis = None\<rparr>"


abbreviation x264_job :: "path \<Rightarrow> path \<Rightarrow> rat \<Rightarrow> ffmpeg_job" where
  "x264_job input_path output_path c \<equiv>
     \<lparr>ff_input = input_path, ff_output = output_path, vcodec = Some ''libx264'',
      crf = Some c, preset = Some ''medium'', acodec = ''aac'', audio_bitrate = ''128k''\<rparr>"


section \<open>The importance detector\<close>

lemmas io_defs = and_then_def return_io_def reads_def lift_def try_except_def write_file_def
  getsize_def

lemma text_candidates_eq:
  "text_candidates L cs =
     map text_region (filter (\<lambda>(x, y, w, h). w > 50 \<and> h > 20) (map (boundingRect L) cs))"
  by (induction cs) (auto split: prod.splits)

text \<open>
  C6, as the code has it: when the image detector returns, every region is either a
  face with weight 1.0 or a text candidate with weight 0.7 whose box is wider than 50
  and higher than 20; the size filter is on text candidates only, and every face the
  cascade reports is returned, whatever its size.
\<close>

theorem detected_regions:
  assumes "detect_important_regions L img = Inr rs"
  shows "(\<forall>r \<in> set rs.
            (rtype r = ''face'' \<and> importance r = 1) \<or>
            (rtype r = ''text_candidate'' \<and> importance r = 7 / 10 \<and>
             (case bbox r of (x, y, w, h) \<Rightarrow> w > 50 \<and> h > 20))) \<and>
         (\<forall>faces. detectMultiScale L (RGB2BGR L img) = Inr faces \<longrightarrow>
            (\<forall>b \<in> set faces. face_region b \<in> set rs))"
  using assms
  by (auto simp: detect_important_regions_def Let_def text_candidates_eq face_region_def
      text_region_def split: sum.splits)

text \<open>
  On a picture with one 30 by 30 face, a 100 by 40 contour and a 10 by 10 contour, the
  small contour is dropped, the large one is a text candidate, and the face is kept.
\<close>

theorem detected_regions_witness:
  "detect_important_regions sample_libs 7 =
     Inr [face_region (0, 0, 30, 30), text_region (5, 5, 100, 40)] \<and>
   rtype (text_region (5, 5, 100, 40)) = ''text_candidate'' \<and>
   importance (text_region (5, 5, 100, 40)) = 7 / 10 \<and>
   face_region (0, 0, 30, 30) \<in> set [face_region (0, 0, 30, 30), text_region (5, 5, 100, 40)]"
proof -
  have h: "detect_important_regions sample_libs 7 =
     Inr [face_region (0, 0, 30, 30), text_region (5, 5, 100, 40)]"
    by (simp add: detect_important_regions_def sample_libs_def)
  from detected_regions [OF h] show ?thesis
    using h by (simp add: text_region_def face_region_def)
qed

text \<open>
  C6 as stated fails: the returned set holds a region of width 30, which is not more
  than 50 (a face).
\<close>

theorem small_face_counterexample:
  "detect_important_regions sample_libs 7 =
     Inr [face_region (0, 0, 30, 30), text_region (5, 5, 100, 40)] \<and>
   bbox (face_region (0, 0, 30, 30)) = (0, 0, 30, 30) \<and> (30 :: int) \<le> 50"
  by (simp add: detect_important_regions_def sample_libs_def face_region_def)


section \<open>The video detector\<close>

lemma analyze_loop_faces:
  "isOpened cap \<Longrightarrow>
   analyze_loop L cap n acc =
     (case faces_of_frames L n (take (10 - n) (frames cap)) of
        Inl e \<Rightarrow> Inl e
      | Inr rs \<Rightarrow> Inr (acc @ rs))"
proof (induction "frames cap" arbitrary: cap n acc)
  case Nil
  then show ?case
    by (subst analyze_loop.simps) (simp add: cap_read_def)
next
  case (Cons f fs)
  let ?cap' = "cap\<lparr>frames := fs\<rparr>"
  have fr: "frames cap = f # fs" using Cons.hyps(2) by simp
  have IH: "\<And>m acc'. analyze_loop L ?cap' m acc' =
     (case faces_of_frames L m (take (10 - m) fs) of
        Inl e \<Rightarrow> Inl e
      | Inr rs \<Rightarrow> Inr (acc' @ rs))"
    using Cons.hyps(1) [of ?cap'] Cons.prems by simp
  show ?case
  proof (cases "n < 10")
    case True
    then obtain k where k: "10 - n = Suc k" and k': "9 - n = k"
      by (cases "10 - n") auto
    show ?thesis
      using True Cons.prems
      by (subst analyze_loop.simps)
         (simp add: cap_read_def fr IH k k' split: sum.splits)
  next
    case False
    then show ?thesis
      by (subst analyze_loop.simps) simp
  qed
qed

lemma faces_of_frames_regions:
  "faces_of_frames L i fs = Inr rs \<Longrightarrow> r \<in> set rs \<Longrightarrow>
   rtype r = ''face'' \<and> importance r = 1 \<and>
   (\<exists>k < length fs. rframe r = Some (i + k) \<and>
      (\<exists>faces. detectMultiScale L (BGR2GRAY L (fs ! k)) = Inr faces \<and> bbox r \<in> set faces))"
proof (induction fs arbitrary: i rs)
  case Nil
  then show ?case by simp
next
  case (Cons f fs)
  from Cons.prems(1) obtain faces rest where
    d: "detectMultiScale L (BGR2GRAY L f) = Inr faces" and
    rest: "faces_of_frames L (Suc i) fs = Inr rest" and
    rs: "rs = map (face_region_at i) faces @ rest"
    by (auto split: sum.splits)
  from Cons.prems(2) rs consider "r \<in> face_region_at i ` set faces" | "r \<in> set rest"
    by auto
  then show ?case
  proof cases
    case 1
    then show ?thesis using d by (auto simp: face_region_at_def intro!: exI [of _ 0])
  next
    case 2
    from Cons.IH [OF rest 2] obtain k where "k < length fs" "rframe r = Some (Suc i + k)"
      "\<exists>faces. detectMultiScale L (BGR2GRAY L (fs ! k)) = Inr faces \<and> bbox r \<in> set faces"
      "rtype r = ''face''" "importance r = 1"
      by blast
    then show ?thesis by (auto intro!: exI [of _ "Suc k"])
  qed
qed

text \<open>
  C7, as the code has it: the video analysis reads at most the first 10 frames, stops
  when the frames run out, and runs the face cascade alone on each frame read; every
  region it returns is a face of weight 1.0 tagged with the index of its frame, and no
  text candidate is produced.
\<close>

theorem video_regions_faces_only:
  "analyze_video_regions L files p =
     (let cap = VideoCapture L files p in
      if isOpened cap then faces_of_frames L 0 (take 10 (frames cap)) else Inr []) \<and>
   (\<forall>rs. analyze_video_regions L files p = Inr rs \<longrightarrow>
      (\<forall>r \<in> set rs. rtype r = ''face'' \<and> importance r = 1 \<and>
         (\<exists>k. k < 10 \<and> k < length (frames (VideoCapture L files p)) \<and> rframe r = Some k)))"
proof -
  let ?cap = "VideoCapture L files p"
  have eq: "analyze_video_regions L files p =
     (if isOpened ?cap then faces_of_frames L 0 (take 10 (frames ?cap)) else Inr [])"
  proof (cases "isOpened ?cap")
    case True
    then show ?thesis
      by (simp add: analyze_video_regions_def analyze_loop_faces split: sum.splits)
  next
    case False
    then show ?thesis
      by (simp add: analyze_video_regions_def analyze_loop.simps)
  qed
  have "rtype r = ''face'' \<and> importance r = 1 \<and>
         (\<exists>k. k < 10 \<and> k < length (frames ?cap) \<and> rframe r = Some k)"
    if a: "analyze_video_regions L files p = Inr rs" and r: "r \<in> set rs" for rs r
  proof (cases "isOpened ?cap")
    case True
    with a eq have "faces_of_frames L 0 (take 10 (frames ?cap)) = Inr rs" by simp
    from faces_of_frames_regions [OF this r] show ?thesis by auto
  next
    case False
    with a eq r show ?thesis by simp
  qed
  with eq show ?thesis by (simp add: Let_def)
qed

text \<open>
  A video of 11 frames: the ten first are sampled, each gives its face, tagged 0 to 9.
\<close>

theorem video_regions_faces_only_witness:
  "analyze_video_regions sample_libs
     [''v.mp4'' \<mapsto> [1, 2, 3, 4, 5, 6, 7, 8, 9, 10, 11]] ''v.mp4'' =
     Inr (map (\<lambda>i. face_region_at i (0, 0, 30, 30)) [0, 1, 2, 3, 4, 5, 6, 7, 8, 9]) \<and>
   rtype (face_region_at 9 (0, 0, 30, 30)) = ''face'' \<and>
   importance (face_region_at 9 (0, 0, 30, 30)) = 1 \<and>
   rframe (face_region_at 9 (0, 0, 30, 30)) = Some 9"
proof -
  note t = video_regions_faces_only
    [of sample_libs "[''v.mp4'' \<mapsto> [1, 2, 3, 4, 5, 6, 7, 8, 9, 10, 11]]" "''v.mp4''"]
  have e: "analyze_video_regions sample_libs
     [''v.mp4'' \<mapsto> [1, 2, 3, 4, 5, 6, 7, 8, 9, 10, 11]] ''v.mp4'' =
     Inr (map (\<lambda>i. face_region_at i (0, 0, 30, 30)) [0, 1, 2, 3, 4, 5, 6, 7, 8, 9])"
    using t by (simp add: sample_libs_def eval_nat_numeral)
  from t e have "rtype (face_region_at 9 (0, 0, 30, 30)) = ''face'' \<and>
      importance (face_region_at 9 (0, 0, 30, 30)) = 1"
    by simp
  with e show ?thesis by (simp add: face_region_at_def)
qed

text \<open>
  C7 as stated fails: on a two-frame video the image detector, applied to each frame
  as the specification words it, reports a text candidate in each frame; the video
  analysis reports the two faces only.
\<close>

theorem video_text_candidates_counterexample:
  "spec_video_regions sample_libs [''v.mp4'' \<mapsto> [1, 2]] ''v.mp4'' =
     Inr [(face_region (0, 0, 30, 30))\<lparr>rframe := Some 0\<rparr>,
          (text_region (5, 5, 100, 40))\<lparr>rframe := Some 0\<rparr>,
          (face_region (0, 0, 30, 30))\<lparr>rframe := Some 1\<rparr>,
          (text_region (5, 5, 100, 40))\<lparr>rframe := Some 1\<rparr>] \<and>
   analyze_video_regions sample_libs [''v.mp4'' \<mapsto> [1, 2]] ''v.mp4'' =
     Inr [face_region_at 0 (0, 0, 30, 30), face_region_at 1 (0, 0, 30, 30)] \<and>
   analyze_video_regions sample_libs [''v.mp4'' \<mapsto> [1, 2]] ''v.mp4'' \<noteq>
     spec_video_regions sample_libs [''v.mp4'' \<mapsto> [1, 2]] ''v.mp4''"
  by (simp add: spec_video_regions_def analyze_video_regions_def analyze_loop.simps
      cap_read_def sample_libs_def detect_important_regions_def)


section \<open>The video rate control\<close>

text \<open>
  C8: adaptive or standard, video compression hands ffmpeg the rate-control value
  \<open>51 - quality * 0.5\<close>: 1 at quality 100, 26 at 50, 51 at 0, and without clamping
  (-49 at quality 200).
\<close>

theorem video_rate_control:
  "compress_video_adaptive L i p q rs =
     and_then (ffmpeg_run L (x264_job i p (51 - of_int q * (1 / 2)))) (\<lambda>_. return_io p) \<and>
   compress_video_standard L i p q =
     and_then (ffmpeg_run L (x264_job i p (51 - of_int q * (1 / 2)))) (\<lambda>_. return_io p) \<and>
   compress_video_adaptive L i p 100 rs =
     and_then (ffmpeg_run L (x264_job i p 1)) (\<lambda>_. return_io p) \<and>
   compress_video_standard L i p 100 =
     and_then (ffmpeg_run L (x264_job i p 1)) (\<lambda>_. return_io p) \<and>
   compress_video_adaptive L i p 50 rs =
     and_then (ffmpeg_run L (x264_job i p 26)) (\<lambda>_. return_io p) \<and>
   compress_video_standard L i p 50 =
     and_then (ffmpeg_run L (x264_job i p 26)) (\<lambda>_. return_io p) \<and>
   compress_video_adaptive L i p 0 rs =
     and_then (ffmpeg_run L (x264_job i p 51)) (\<lambda>_. return_io p) \<and>
   compress_video_standard L i p 0 =
     and_then (ffmpeg_run L (x264_job i p 51)) (\<lambda>_. return_io p) \<and>
   compress_video_adaptive L i p 200 rs =
     and_then (ffmpeg_run L (x264_job i p (- 49))) (\<lambda>_. return_io p) \<and>
   compress_video_standard L i p 200 =
     and_then (ffmpeg_run L (x264_job i p (- 49))) (\<lambda>_. return_io p)"
  by (simp add: compress_video_adaptive_def compress_video_standard_def)


section \<open>The compression ratio\<close>

lemma and_then_Inr_iff:
  "(and_then m f files = (Inr y, files')) =
     (\<exists>x files1. m files = (Inr x, files1) \<and> f x files1 = (Inr y, files'))"
  by (auto simp: and_then_def split: prod.splits sum.splits)

lemma try_except_success:
  assumes "try_except m (\<lambda>e. return_io (Failure (str e))) files =
             (Inr (Success a b c d), files')"
  shows "m files = (Inr (Success a b c d), files')"
  using assms by (auto simp: try_except_def return_io_def split: prod.splits sum.splits)

lemma ratio_expr_Inr:
  "(ratio_expr csize osize = Inr r) =
     (0 < osize \<and> r = (1 - of_nat csize / of_nat osize) * 100)"
  by (auto simp: ratio_expr_def)

lemma image_ratio:
  assumes "compress_image L i p q a files = (Inr (Success osize csize ratio an), files')"
  shows "0 < osize \<and> ratio = (1 - of_nat csize / of_nat osize) * 100"
proof -
  from assms have
    "compress_image_try L i p q a files = (Inr (Success osize csize ratio an), files')"
    unfolding compress_image_def by (rule try_except_success)
  then show ?thesis
    unfolding compress_image_try_def
    by (clarsimp simp: and_then_Inr_iff lift_def return_io_def ratio_expr_Inr)
qed

lemma audio_ratio:
  assumes "compress_audio L i p b files = (Inr (Success osize csize ratio an), files')"
  shows "0 < osize \<and> ratio = (1 - of_nat csize / of_nat osize) * 100"
proof -
  from assms have
    "compress_audio_try L i p b files = (Inr (Success osize csize ratio an), files')"
    unfolding compress_audio_def by (rule try_except_success)
  then show ?thesis
    unfolding compress_audio_try_def
    by (clarsimp simp: and_then_Inr_iff lift_def return_io_def ratio_expr_Inr)
qed

lemma video_ratio:
  assumes "compress_video L i p q a files = (Inr (Success osize csize ratio an), files')"
  shows "0 < osize \<and> ratio = (1 - of_nat csize / of_nat osize) * 100"
proof -
  from assms have
    "compress_video_try L i p q a files = (Inr (Success osize csize ratio an), files')"
    unfolding compress_video_def by (rule try_except_success)
  then show ?thesis
    unfolding compress_video_try_def
    by (clarsimp simp: and_then_Inr_iff lift_def return_io_def ratio_expr_Inr)
qed

lemma ratio_negative:
  fixes csize osize :: nat
  assumes "0 < osize"
  shows "((1 - of_nat csize / of_nat osize) * 100 < (0::rat)) = (osize < csize)"
  using assms by (simp add: mult_less_0_iff field_simps)

lemma fst_eqD: "fst x = a \<Longrightarrow> \<exists>b. x = (a, b)"
  by (cases x) simp

text \<open>
  C1, as the code has it: whenever an image, audio or video compression completes, the
  original size in its result is positive and the \<open>compression_ratio\<close> in its result is
  \<open>(1 - compressed_size / original_size) * 100\<close>, a percentage, of the two sizes in
  the same result; it is negative exactly when the compressed size is the larger.
\<close>

theorem compression_ratio_percent:
  "(fst (compress_image L i p q a files) = Inr (Success osize csize ratio an) \<longrightarrow>
      0 < osize \<and> ratio = (1 - of_nat csize / of_nat osize) * 100 \<and>
      (ratio < 0) = (osize < csize)) \<and>
   (fst (compress_audio L i p b files) = Inr (Success osize csize ratio an) \<longrightarrow>
      0 < osize \<and> ratio = (1 - of_nat csize / of_nat osize) * 100 \<and>
      (ratio < 0) = (osize < csize)) \<and>
   (fst (compress_video L i p q a files) = Inr (Success osize csize ratio an) \<longrightarrow>
      0 < osize \<and> ratio = (1 - of_nat csize / of_nat osize) * 100 \<and>
      (ratio < 0) = (osize < csize))"
proof (intro conjI impI)
  assume "fst (compress_image L i p q a files) = Inr (Success osize csize ratio an)"
  then obtain files' where
    "compress_image L i p q a files = (Inr (Success osize csize ratio an), files')"
    by (auto dest: fst_eqD)
  from image_ratio [OF this]
  have pos: "0 < osize" and eq: "ratio = (1 - of_nat csize / of_nat osize) * 100"
    by simp_all
  show "0 < osize" by (rule pos)
  show "ratio = (1 - of_nat csize / of_nat osize) * 100" by (rule eq)
  show "(ratio < 0) = (osize < csize)"
    unfolding eq by (rule ratio_negative [OF pos])
next
  assume "fst (compress_audio L i p b files) = Inr (Success osize csize ratio an)"
  then obtain files' where
    "compress_audio L i p b files = (Inr (Success osize csize ratio an), files')"
    by (auto dest: fst_eqD)
  from audio_ratio [OF this]
  have pos: "0 < osize" and eq: "ratio = (1 - of_nat csize / of_nat osize) * 100"
    by simp_all
  show "0 < osize" by (rule pos)
  show "ratio = (1 - of_nat csize / of_nat osize) * 100" by (rule eq)
  show "(ratio < 0) = (osize < csize)"
    unfolding eq by (rule ratio_negative [OF pos])
next
  assume "fst (compress_video L i p q a files) = Inr (Success osize csize ratio an)"
  then obtain files' where
    "compress_video L i p q a files = (Inr (Success osize csize ratio an), files')"
    by (auto dest: fst_eqD)
  from video_ratio [OF this]
  have pos: "0 < osize" and eq: "ratio = (1 - of_nat csize / of_nat osize) * 100"
    by simp_all
  show "0 < osize" by (rule pos)
  show "ratio = (1 - of_nat csize / of_nat osize) * 100" by (rule eq)
  show "(ratio < 0) = (osize < csize)"
    unfolding eq by (rule ratio_negative [OF pos])
qed

text \<open>
  An audio file of 100 bytes that ffmpeg turns into 200 bytes: the ratio is -100.
\<close>

theorem compression_ratio_percent_witness:
  "fst (compress_audio padding_libs ''uploads/t1_a.wav'' ''outputs/compressed_t1_a.mp3'' 6
          [''uploads/t1_a.wav'' \<mapsto> replicate 100 0]) =
     Inr (Success 100 200 (- 100) (AudioAnalysis False 6)) \<and>
   (- 100 :: rat) = (1 - of_nat 200 / of_nat 100) * 100 \<and> (- 100 :: rat) < 0"
proof -
  have h: "fst (compress_audio padding_libs ''uploads/t1_a.wav''
                  ''outputs/compressed_t1_a.mp3'' 6
                  [''uploads/t1_a.wav'' \<mapsto> replicate 100 0]) =
     Inr (Success 100 200 (- 100) (AudioAnalysis False 6))"
    by (simp add: compress_audio_def compress_audio_try_def io_defs padding_libs_def
        sample_libs_def compress_with_ffmpeg_def ratio_expr_def Let_def)
  from compression_ratio_percent
    [where L = padding_libs and i = "''uploads/t1_a.wav''"
       and p = "''outputs/compressed_t1_a.mp3''" and b = 6
       and files = "[''uploads/t1_a.wav'' \<mapsto> replicate 100 0]"
       and osize = 100 and csize = 200 and ratio = "- 100"
       and an = "AudioAnalysis False 6"] h
  show ?thesis by simp
qed

text \<open>
  C1 as stated fails: an audio file of 100 bytes compressed to 50 bytes has the stored
  ratio 50, and \<open>1 - 50 / 100\<close> is one half.
\<close>

theorem ratio_fraction_counterexample:
  "fst (compress_audio sample_libs ''uploads/t1_a.wav'' ''outputs/compressed_t1_a.mp3'' 6
          [''uploads/t1_a.wav'' \<mapsto> replicate 100 0]) =
     Inr (Success 100 50 50 (AudioAnalysis False 6)) \<and>
   (50 :: rat) \<noteq> 1 - of_nat 50 / of_nat 100"
  by (simp add: compress_audio_def compress_audio_try_def io_defs sample_libs_def
      compress_with_ffmpeg_def ratio_expr_def Let_def)


section \<open>The backends never raise\<close>

lemma try_except_returns:
  "\<exists>r. fst (try_except m (\<lambda>e. return_io (h e)) files) = Inr r"
  by (auto simp: try_except_def return_io_def split: prod.splits sum.splits)

lemma try_except_converts:
  "fst (m files) = Inl e \<Longrightarrow> fst (try_except m (\<lambda>e. return_io (h e)) files) = Inr (h e)"
  by (auto simp: try_except_def return_io_def split: prod.splits sum.splits)

lemma and_then_first_raises:
  "fst (m files) = Inl e \<Longrightarrow> fst (and_then m f files) = Inl e"
  by (auto simp: and_then_def split: prod.splits sum.splits)

text \<open>
  C5: \<open>compress_image\<close>, \<open>compress_audio\<close> and \<open>compress_video\<close> return on every
  input; whenever their \<open>try\<close> block raises \<open>e\<close> the result is
  \<open>{"success": False, "error": str(e)}\<close>. So it is when the picture cannot be opened,
  and when the source of an audio or video compression is missing.
\<close>

theorem backends_never_raise:
  "(\<exists>r. fst (compress_image L i p q a files) = Inr r) \<and>
   (\<exists>r. fst (compress_audio L i p b files) = Inr r) \<and>
   (\<exists>r. fst (compress_video L i p q a files) = Inr r) \<and>
   (fst (compress_image_try L i p q a files) = Inl e \<longrightarrow>
      fst (compress_image L i p q a files) = Inr (Failure (str e))) \<and>
   (fst (compress_audio_try L i p b files) = Inl e \<longrightarrow>
      fst (compress_audio L i p b files) = Inr (Failure (str e))) \<and>
   (fst (compress_video_try L i p q a files) = Inl e \<longrightarrow>
      fst (compress_video L i p q a files) = Inr (Failure (str e))) \<and>
   (Image_open L files i = Inl e \<longrightarrow>
      fst (compress_image L i p q a files) = Inr (Failure (str e))) \<and>
   (files i = None \<longrightarrow>
      fst (compress_audio L i p b files) =
        Inr (Failure (''[Errno 2] No such file or directory: '' @ i)) \<and>
      fst (compress_video L i p q a files) =
        Inr (Failure (''[Errno 2] No such file or directory: '' @ i)))"
proof -
  have img: "fst (compress_image L i p q a files) = Inr (Failure (str e))"
    if "Image_open L files i = Inl e"
  proof -
    from that have "fst (compress_image_try L i p q a files) = Inl e"
      unfolding compress_image_try_def
      by (intro and_then_first_raises) (simp add: reads_def)
    then show ?thesis unfolding compress_image_def
      by (rule try_except_converts [where h = "\<lambda>e. Failure (str e)"])
  qed
  have missing: "fst (reads (\<lambda>files. getsize files i) files) =
      Inl (Exception (''[Errno 2] No such file or directory: '' @ i))" if "files i = None"
    using that by (simp add: reads_def getsize_def)
  have aud: "fst (compress_audio L i p b files) =
        Inr (Failure (''[Errno 2] No such file or directory: '' @ i))" if "files i = None"
  proof -
    from missing [OF that] have "fst (compress_audio_try L i p b files) =
        Inl (Exception (''[Errno 2] No such file or directory: '' @ i))"
      unfolding compress_audio_try_def by (rule and_then_first_raises)
    then have "fst (try_except (compress_audio_try L i p b)
                      (\<lambda>e. return_io (Failure (str e))) files) =
        Inr (Failure (str (Exception (''[Errno 2] No such file or directory: '' @ i))))"
      by (rule try_except_converts [where h = "\<lambda>e. Failure (str e)"])
    then show ?thesis unfolding compress_audio_def by simp
  qed
  have vid: "fst (compress_video L i p q a files) =
        Inr (Failure (''[Errno 2] No such file or directory: '' @ i))" if "files i = None"
  proof -
    from missing [OF that] have "fst (compress_video_try L i p q a files) =
        Inl (Exception (''[Errno 2] No such file or directory: '' @ i))"
      unfolding compress_video_try_def by (rule and_then_first_raises)
    then have "fst (try_except (compress_video_try L i p q a)
                      (\<lambda>e. return_io (Failure (str e))) files) =
        Inr (Failure (str (Exception (''[Errno 2] No such file or directory: '' @ i))))"
      by (rule try_except_converts [where h = "\<lambda>e. Failure (str e)"])
    then show ?thesis unfolding compress_video_def by simp
  qed
  show ?thesis
    using img aud vid
    by (simp add: compress_image_def compress_audio_def compress_video_def
        try_except_returns try_except_converts [where h = "\<lambda>e. Failure (str e)"])
qed

text \<open>
  With no file \<open>missing.wav\<close>, audio and video compression return the failure that
  names it.
\<close>

theorem backends_never_raise_witness:
  "[''other.wav'' \<mapsto> [1 :: 8 word]] ''missing.wav'' = None \<and>
   fst (compress_audio sample_libs ''missing.wav'' ''outputs/compressed_missing.mp3'' 6
          [''other.wav'' \<mapsto> [1]]) =
     Inr (Failure ''[Errno 2] No such file or directory: missing.wav'') \<and>
   fst (compress_video sample_libs ''missing.wav'' ''outputs/compressed_missing.mp3'' 50 True
          [''other.wav'' \<mapsto> [1]]) =
     Inr (Failure ''[Errno 2] No such file or directory: missing.wav'') \<and>
   Image_open sample_libs [''other.wav'' \<mapsto> [1]] ''missing.wav'' =
     Inl (Exception ''cannot open image'') \<and>
   fst (compress_image sample_libs ''missing.wav'' ''outputs/compressed_missing.mp3'' 50 True
          [''other.wav'' \<mapsto> [1]]) =
     Inr (Failure ''cannot open image'')"
proof -
  have h: "[''other.wav'' \<mapsto> [1 :: 8 word]] ''missing.wav'' = None" by simp
  have o: "Image_open sample_libs [''other.wav'' \<mapsto> [1]] ''missing.wav'' =
     Inl (Exception ''cannot open image'')"
    by (simp add: sample_libs_def)
  from backends_never_raise
    [where L = sample_libs and i = "''missing.wav''" and files = "[''other.wav'' \<mapsto> [1]]"
       and p = "''outputs/compressed_missing.mp3''" and b = 6 and q = 50 and a = True
       and e = "Exception ''cannot open image''"] h o
  show ?thesis by simp
qed


section \<open>One run of the service\<close>

lemma upload_audio_sample:
  "upload_audio sample_libs 0 ''t1'' sample_wav 6 empty_world =
     (Inr (UploadResponse ''t1'' ''processing'' ''Audio compression started''),
      \<lparr>tasks = [''t1'' \<mapsto> uploaded_job], worker_tasks = Map.empty,
       disk = [''uploads/t1_a.wav'' \<mapsto> replicate 100 0],
       broker = [CompressAudio ''t1'' ''uploads/t1_a.wav'' 6]\<rparr>)"
  by (simp add: upload_audio_def sample_wav_def empty_world_def sample_libs_def
      return_io_def write_file_def path_join_def CompressionTask_new_def uploaded_job_def
      Let_def)

lemma uploaded_world_eq:
  "uploaded_world =
     \<lparr>tasks = [''t1'' \<mapsto> uploaded_job], worker_tasks = Map.empty,
      disk = [''uploads/t1_a.wav'' \<mapsto> replicate 100 0],
      broker = [CompressAudio ''t1'' ''uploads/t1_a.wav'' 6]\<rparr>"
  by (simp add: uploaded_world_def upload_audio_sample)

lemma compress_audio_sample:
  "compress_audio sample_libs ''uploads/t1_a.wav'' ''outputs/compressed_t1_a.mp3'' 6
     [''uploads/t1_a.wav'' \<mapsto> replicate 100 0] =
     (Inr (Success 100 50 50 (AudioAnalysis False 6)),
      [''uploads/t1_a.wav'' \<mapsto> replicate 100 0,
       ''uploads/t1_a_compressed.mp3'' \<mapsto> replicate 50 0])"
  by (simp add: compress_audio_def compress_audio_try_def io_defs sample_libs_def
      compress_with_ffmpeg_def ratio_expr_def Let_def)











section \<open>Worker tasks on an unknown id\<close>

lemma set_processing_absent: "tbl task_id = None \<Longrightarrow> set_processing task_id tbl = tbl"
  by (simp add: set_processing_def)

lemma set_progress_30_absent: "tbl task_id = None \<Longrightarrow> set_progress_30 task_id tbl = tbl"
  by (simp add: set_progress_30_def)

lemma set_completed_absent:
  "tbl task_id = None \<Longrightarrow> set_completed task_id p c r an tbl = tbl"
  by (simp add: set_completed_def)

lemma set_failed_absent: "tbl task_id = None \<Longrightarrow> set_failed task_id reason tbl = tbl"
  by (simp add: set_failed_def)

lemmas absent_simps = set_processing_absent set_progress_30_absent set_completed_absent
  set_failed_absent

text \<open>
  C10: for a \<open>task_id\<close> that is not in the job table, each of the three worker tasks
  returns a result dict, raises nothing, and leaves the job table as it was.
\<close>

theorem absent_task_id_frame:
  assumes "task_id \<notin> dom tbl"
  shows "(\<exists>r files'. task_compress_image L task_id f q a (tbl, files) = (Inr r, tbl, files')) \<and>
         (\<exists>r files'. task_compress_audio L task_id f b (tbl, files) = (Inr r, tbl, files')) \<and>
         (\<exists>r files'. task_compress_video L task_id f q a (tbl, files) = (Inr r, tbl, files'))"
proof -
  from assms have none: "tbl task_id = None" by (simp add: domIff)
  show ?thesis
    by (simp add: task_compress_image_def task_compress_audio_def task_compress_video_def
        Let_def on_exception_def on_result_def absent_simps none
        split: prod.splits sum.splits result.splits)
qed

text \<open>
  The audio task run under the unknown id \<open>t2\<close>: it compresses, returns its dict, and
  the table still holds the job \<open>t1\<close> alone, untouched.
\<close>

theorem absent_task_id_frame_witness:
  "''t2'' \<notin> dom [''t1'' \<mapsto> uploaded_job] \<and>
   fst (task_compress_audio sample_libs ''t2'' ''uploads/t1_a.wav'' 6
          ([''t1'' \<mapsto> uploaded_job], [''uploads/t1_a.wav'' \<mapsto> replicate 100 0])) =
     Inr (TaskSuccess ''t2'' 50 50) \<and>
   fst (snd (task_compress_audio sample_libs ''t2'' ''uploads/t1_a.wav'' 6
          ([''t1'' \<mapsto> uploaded_job], [''uploads/t1_a.wav'' \<mapsto> replicate 100 0]))) =
     [''t1'' \<mapsto> uploaded_job]"
proof -
  have h: "''t2'' \<notin> dom [''t1'' \<mapsto> uploaded_job]" by simp
  have mk: "mkdir sample_libs ''outputs'' [''uploads/t1_a.wav'' \<mapsto> replicate 100 0] =
      (Inr (), [''uploads/t1_a.wav'' \<mapsto> replicate 100 0])"
    by (simp add: sample_libs_def return_io_def)
  have e: "fst (task_compress_audio sample_libs ''t2'' ''uploads/t1_a.wav'' 6
          ([''t1'' \<mapsto> uploaded_job], [''uploads/t1_a.wav'' \<mapsto> replicate 100 0])) =
     Inr (TaskSuccess ''t2'' 50 50)"
    unfolding task_compress_audio_def
    by (simp add: path_join_def path_stem_def path_name_def mk compress_audio_sample Let_def
        on_result_def)
  from absent_task_id_frame [OF h, where L = sample_libs and f = "''uploads/t1_a.wav''"
      and b = 6 and q = 80 and a = True
      and files = "[''uploads/t1_a.wav'' \<mapsto> replicate 100 0]"]
  obtain r files' where
    "task_compress_audio sample_libs ''t2'' ''uploads/t1_a.wav'' 6
       ([''t1'' \<mapsto> uploaded_job], [''uploads/t1_a.wav'' \<mapsto> replicate 100 0]) =
     (Inr r, [''t1'' \<mapsto> uploaded_job], files')"
    by blast
  then have "fst (snd (task_compress_audio sample_libs ''t2'' ''uploads/t1_a.wav'' 6
          ([''t1'' \<mapsto> uploaded_job], [''uploads/t1_a.wav'' \<mapsto> replicate 100 0]))) =
     [''t1'' \<mapsto> uploaded_job]"
    by simp
  with h e show ?thesis by simp
qed


section \<open>Submission\<close>





section \<open>Download\<close>

text \<open>
  C9: \<open>download_compressed_file\<close> fails with 404 "Task not found" for an unknown id,
  with 400 "Task not completed" for a job whose status is not Completed, with 404
  "Compressed file not found" for a Completed job whose recorded file is not in storage;
  and it never changes the job table (nor anything else).
\<close>

theorem download_failures:
  "(tasks w task_id = None \<longrightarrow>
      fst (download_compressed_file task_id w) = Inl (HTTPException 404 ''Task not found'')) \<and>
   (\<forall>t. tasks w task_id = Some t \<and> status t \<noteq> COMPLETED \<longrightarrow>
      fst (download_compressed_file task_id w) =
        Inl (HTTPException 400 ''Task not completed'')) \<and>
   (\<forall>t. tasks w task_id = Some t \<and> status t = COMPLETED \<and>
        (\<forall>p. compressed_file_path t = Some p \<longrightarrow> \<not> exists_path (disk w) p) \<longrightarrow>
      fst (download_compressed_file task_id w) =
        Inl (HTTPException 404 ''Compressed file not found'')) \<and>
   snd (download_compressed_file task_id w) = w"
  by (auto simp: download_compressed_file_def split: option.splits)

text \<open>
  Download of the job \<open>t1\<close> while it is Processing, and of an unknown id.
\<close>

theorem download_failures_witness:
  "tasks uploaded_world ''t1'' = Some uploaded_job \<and> status uploaded_job \<noteq> COMPLETED \<and>
   download_compressed_file ''t1'' uploaded_world =
     (Inl (HTTPException 400 ''Task not completed''), uploaded_world) \<and>
   tasks uploaded_world ''t9'' = None \<and>
   download_compressed_file ''t9'' uploaded_world =
     (Inl (HTTPException 404 ''Task not found''), uploaded_world)"
proof -
  have h: "tasks uploaded_world ''t1'' = Some uploaded_job \<and> status uploaded_job \<noteq> COMPLETED"
    by (simp add: uploaded_world_eq uploaded_job_def)
  have n: "tasks uploaded_world ''t9'' = None"
    by (simp add: uploaded_world_eq)
  from download_failures [of uploaded_world "''t1''"] h
  have 1: "download_compressed_file ''t1'' uploaded_world =
     (Inl (HTTPException 400 ''Task not completed''), uploaded_world)"
    by (simp add: prod_eq_iff)
  from download_failures [of uploaded_world "''t9''"] n
  have 2: "download_compressed_file ''t9'' uploaded_world =
     (Inl (HTTPException 404 ''Task not found''), uploaded_world)"
    by (simp add: prod_eq_iff)
  from h n 1 2 show ?thesis by simp
qed


section \<open>The artifact of the audio fallback\<close>



section \<open>The invariant of the job record\<close>



end
